theory Spec2Isabelle
  imports Complex_Main
begin

section \<open>Python values used by the library\<close>

text \<open>
  A Python \<open>str\<close> is a sequence of Unicode code points. A HOL \<open>char\<close> is a byte, so a
  string is modelled as the list of its characters' code points (the values \<open>ord\<close>
  returns); \<open>len\<close> is \<open>length\<close>. \<open>py\<close> turns an ASCII literal into such a string and
  \<open>ch\<close> a character literal into its code point.
\<close>

type_synonym pystr = "int list"

definition ch :: "char \<Rightarrow> int" where
  "ch c = of_char c"

definition py :: "string \<Rightarrow> pystr" where
  "py s = map ch s"

text \<open>The exceptions the modelled code can raise; messages are not modelled.\<close>

datatype py_error = ValueError

subsection \<open>Slicing and string methods\<close>

text \<open>
  Python clips slice bounds: a negative bound counts from the end, and a bound beyond
  either end is moved to that end. \<open>s[i:j]\<close>, \<open>s[i:]\<close> and \<open>s[:j]\<close>:
\<close>

definition clip :: "nat \<Rightarrow> int \<Rightarrow> nat" where
  "clip n i = (if i < 0 then nat (int n + i) else min n (nat i))"

definition slice :: "'a list \<Rightarrow> int \<Rightarrow> int \<Rightarrow> 'a list" where
  "slice s i j = take (clip (length s) j - clip (length s) i) (drop (clip (length s) i) s)"

definition slice_from :: "'a list \<Rightarrow> int \<Rightarrow> 'a list" where
  "slice_from s i = drop (clip (length s) i) s"

definition slice_to :: "'a list \<Rightarrow> int \<Rightarrow> 'a list" where
  "slice_to s j = take (clip (length s) j) s"

definition startswith :: "pystr \<Rightarrow> pystr \<Rightarrow> bool" where
  "startswith s p = (take (length p) s = p)"

definition endswith :: "pystr \<Rightarrow> pystr \<Rightarrow> bool" where
  "endswith s p = (length p \<le> length s \<and> drop (length s - length p) s = p)"

text \<open>\<open>sub in s\<close> on strings is the substring test.\<close>

fun contains :: "pystr \<Rightarrow> pystr \<Rightarrow> bool" where
  "contains [] sub = (sub = [])"
| "contains (c # cs) sub = (startswith (c # cs) sub \<or> contains cs sub)"

text \<open>
  \<open>s.split(sep)\<close> cuts at the occurrences of \<open>sep\<close> found from left to right, without
  overlap. (Python raises on an empty separator; the library only splits on \<open>']['\<close>.)
\<close>

fun split_loop :: "pystr \<Rightarrow> pystr \<Rightarrow> pystr \<Rightarrow> pystr list" where
  "split_loop sep acc [] = [acc]"
| "split_loop sep acc (c # cs) =
     (if sep \<noteq> [] \<and> startswith (c # cs) sep
      then acc # split_loop sep [] (drop (length sep - 1) cs)
      else split_loop sep (acc @ [c]) cs)"

definition split :: "pystr \<Rightarrow> pystr \<Rightarrow> pystr list" where
  "split s sep = split_loop sep [] s"

text \<open>\<open>s.strip(chars)\<close> removes leading and trailing characters that occur in \<open>chars\<close>.\<close>

definition strip :: "pystr \<Rightarrow> pystr \<Rightarrow> pystr" where
  "strip s chars =
     rev (dropWhile (\<lambda>c. c \<in> set chars) (rev (dropWhile (\<lambda>c. c \<in> set chars) s)))"

section \<open>Optimizer (unicode\_regex/optimizer.py)\<close>

subsection \<open>\<open>Optimizer.minimize_pattern\<close>\<close>

text \<open>
  Three rewrites are tried in the order of the source; the first whose guard holds
  returns, and a guard that fails falls through to the next \<open>if\<close>.
\<close>

definition minimize_pattern :: "pystr \<Rightarrow> pystr" where
  "minimize_pattern pattern =
     (if pattern = [] then pattern
      else if startswith pattern (py ''['') \<and> endswith pattern (py '']'')
              \<and> length (slice pattern 1 (- 1)) = 1
              \<and> \<not> startswith (slice pattern 1 (- 1)) (py [CHR 0x5C])
           then slice pattern 1 (- 1)
      else if startswith pattern (py ''(?:'') \<and> endswith pattern (py '')'')
              \<and> \<not> contains (slice pattern 3 (- 1)) (py ''|'')
           then slice pattern 3 (- 1)
      else if contains pattern (py '']['')
              \<and> list_all (\<lambda>p. startswith p (py ''['')) (slice_from (split pattern (py '']['')) 1)
              \<and> list_all (\<lambda>p. endswith p (py '']'')) (slice_to (split pattern (py '']['')) (- 1))
           then py ''['' @ concat (map (\<lambda>p. strip p (py ''[]'')) (split pattern (py '']['')))
                @ py '']''
      else pattern)"

subsection \<open>\<open>Optimizer.optimize_readability\<close>\<close>

text \<open>
  The loop runs over \<open>enumerate(pattern)\<close>; \<open>in_class\<close> and \<open>result\<close> are the loop's
  variables. The reads \<open>pattern[i-1]\<close> and \<open>pattern[i+1]\<close> are guarded by the source
  so that they are in range.
\<close>

fun readability_loop :: "pystr \<Rightarrow> (nat \<times> int) list \<Rightarrow> bool \<Rightarrow> pystr \<Rightarrow> pystr" where
  "readability_loop pattern [] in_class result = result"
| "readability_loop pattern ((i, c) # rest) in_class result =
     (if c = ch CHR ''[''
      then readability_loop pattern rest True (result @ [c])
      else if c = ch CHR '']''
      then readability_loop pattern rest False (result @ [c])
      else if c = ch CHR ''|'' \<and> \<not> in_class
      then readability_loop pattern rest in_class
             ((if 0 < i \<and> pattern ! (i - 1) \<noteq> ch CHR '' ''
               then result @ [ch CHR '' ''] else result)
              @ [c]
              @ (if int i < int (length pattern) - 1 \<and> pattern ! (i + 1) \<noteq> ch CHR '' ''
                 then [ch CHR '' ''] else []))
      else readability_loop pattern rest in_class (result @ [c]))"

definition optimize_readability :: "pystr \<Rightarrow> pystr" where
  "optimize_readability pattern =
     (if pattern = [] then pattern
      else readability_loop pattern (enumerate 0 pattern) False [])"

subsection \<open>\<open>Optimizer.optimize_pattern\<close>\<close>

definition optimize_pattern :: "pystr \<Rightarrow> pystr \<Rightarrow> py_error + pystr" where
  "optimize_pattern pattern prioritize =
     (if prioritize \<noteq> py ''size'' \<and> prioritize \<noteq> py ''readability'' then Inl ValueError
      else if prioritize = py ''readability''
           then Inr (optimize_readability (minimize_pattern pattern))
           else Inr (minimize_pattern pattern))"

section \<open>CodePointSet (unicode\_regex/code\_point\_set.py)\<close>

text \<open>
  An instance has one attribute, \<open>_points\<close>, a Python set of ints. The methods are
  modelled on that value: a mutating method takes the points and returns the new points,
  or the exception it raises, in which case the object keeps the points it had (both
  \<open>add\<close> and \<open>add_range\<close> validate before they touch the set). No method shares its
  \<open>_points\<close> with another object: \<open>|\<close>, \<open>&\<close>, \<open>-\<close> and \<open>copy\<close> build new sets.
\<close>

definition add :: "int \<Rightarrow> int set \<Rightarrow> py_error + int set" where
  "add code_point points =
     (if \<not> (0 \<le> code_point \<and> code_point \<le> 0x10FFFF) then Inl ValueError
      else Inr (insert code_point points))"

definition add_range :: "int \<Rightarrow> int \<Rightarrow> int set \<Rightarrow> py_error + int set" where
  "add_range start end' points =
     (if \<not> (0 \<le> start \<and> start \<le> end' \<and> end' \<le> 0x10FFFF) then Inl ValueError
      else Inr (fold insert [start..end'] points))"

text \<open>
  \<open>remove\<close> and \<open>remove_range\<close> call \<open>set.discard\<close>, which ignores absent elements, and
  check nothing; they have no raising branch. \<open>range(start, end + 1)\<close> is empty when
  \<open>end < start\<close>, as \<open>[start..end]\<close> is.
\<close>

definition remove_point :: "int \<Rightarrow> int set \<Rightarrow> py_error + int set" where
  "remove_point code_point points = Inr (points - {code_point})"

definition remove_range :: "int \<Rightarrow> int \<Rightarrow> int set \<Rightarrow> py_error + int set" where
  "remove_range start end' points = Inr (fold (\<lambda>point s. s - {point}) [start..end'] points)"

text \<open>
  \<open>__init__\<close>: the optional argument is iterated and each element goes through \<open>add\<close>;
  the first invalid element raises and no object is built.
\<close>

fun add_all :: "int list \<Rightarrow> int set \<Rightarrow> py_error + int set" where
  "add_all [] points = Inr points"
| "add_all (point # rest) points =
     (case add point points of Inl e \<Rightarrow> Inl e | Inr points' \<Rightarrow> add_all rest points')"

definition CodePointSet_init :: "int list option \<Rightarrow> py_error + int set" where
  "CodePointSet_init code_points =
     (case code_points of None \<Rightarrow> Inr {} | Some ps \<Rightarrow> add_all ps {})"

definition from_range :: "int \<Rightarrow> int \<Rightarrow> py_error + int set" where
  "from_range start end' =
     (case CodePointSet_init None of Inl e \<Rightarrow> Inl e | Inr result \<Rightarrow> add_range start end' result)"

definition from_single :: "int \<Rightarrow> py_error + int set" where
  "from_single code_point = from_range code_point code_point"

text \<open>\<open>from_string\<close>: \<open>ord(char)\<close> of a character of the model is the character itself.\<close>

definition from_string :: "pystr \<Rightarrow> py_error + int set" where
  "from_string text =
     (case CodePointSet_init None of Inl e \<Rightarrow> Inl e | Inr result \<Rightarrow> add_all text result)"

definition cps_contains :: "int set \<Rightarrow> int \<Rightarrow> bool" where
  "cps_contains points code_point = (code_point \<in> points)"

definition cps_iter :: "int set \<Rightarrow> int list" where
  "cps_iter points = sorted_list_of_set points"

definition cps_len :: "int set \<Rightarrow> nat" where
  "cps_len points = card points"

definition cps_bool :: "int set \<Rightarrow> bool" where
  "cps_bool points = (points \<noteq> {})"

definition cps_or :: "int set \<Rightarrow> int set \<Rightarrow> int set" where
  "cps_or self other = self \<union> other"

definition cps_and :: "int set \<Rightarrow> int set \<Rightarrow> int set" where
  "cps_and self other = self \<inter> other"

definition cps_sub :: "int set \<Rightarrow> int set \<Rightarrow> int set" where
  "cps_sub self other = self - other"

definition copy :: "int set \<Rightarrow> int set" where
  "copy points = points"

text \<open>
  \<open>__invert__\<close>: the loop over \<open>sorted(self._points)\<close> carries \<open>current\<close> and the set
  being built; each gap goes through \<open>add_range\<close>, whose exception would leave the loop.
\<close>

fun invert_loop :: "int list \<Rightarrow> int \<Rightarrow> int set \<Rightarrow> py_error + int \<times> int set" where
  "invert_loop [] current result = Inr (current, result)"
| "invert_loop (point # rest) current result =
     (if point > current
      then (case add_range current (point - 1) result of
              Inl e \<Rightarrow> Inl e
            | Inr result' \<Rightarrow> invert_loop rest (point + 1) result')
      else invert_loop rest (point + 1) result)"

definition cps_invert :: "int set \<Rightarrow> py_error + int set" where
  "cps_invert points =
     (case invert_loop (sorted_list_of_set points) 0 {} of
        Inl e \<Rightarrow> Inl e
      | Inr (current, result) \<Rightarrow>
          if current \<le> 0x10FFFF then add_range current 0x10FFFF result else Inr result)"

text \<open>
  \<open>get_ranges\<close> is a generator; the model returns the list of the pairs it yields, in
  order. \<open>start\<close> and \<open>end\<close> are the loop's variables. The sorted list of a non-empty
  Python set is non-empty, so \<open>points[0]\<close> is in range.
\<close>

fun get_ranges_loop :: "int \<Rightarrow> int \<Rightarrow> int list \<Rightarrow> (int \<times> int) list" where
  "get_ranges_loop start end' [] = [(start, end')]"
| "get_ranges_loop start end' (point # rest) =
     (if point = end' + 1 then get_ranges_loop start point rest
      else (start, end') # get_ranges_loop point point rest)"

definition get_ranges :: "int set \<Rightarrow> (int \<times> int) list" where
  "get_ranges points =
     (if points = {} then []
      else (case sorted_list_of_set points of
              [] \<Rightarrow> []
            | first # rest \<Rightarrow> get_ranges_loop first first rest))"

text \<open>The class invariant: every member is a valid code point.\<close>

definition valid_points :: "int set \<Rightarrow> bool" where
  "valid_points points = (points \<subseteq> {0..0x10FFFF})"

text \<open>
  Re-flattening a list of ranges: a fresh set to which each range is added with
  \<open>add_range\<close>, in order.
\<close>

fun add_ranges :: "(int \<times> int) list \<Rightarrow> int set \<Rightarrow> py_error + int set" where
  "add_ranges [] points = Inr points"
| "add_ranges ((start, end') # rest) points =
     (case add_range start end' points of
        Inl e \<Rightarrow> Inl e
      | Inr points' \<Rightarrow> add_ranges rest points')"

text \<open>
  The sets a caller can hold: those built by the constructors and class methods, and
  those obtained from them by the public methods and operators, whenever the call
  returns.
\<close>

inductive reachable :: "int set \<Rightarrow> bool" where
  r_init: "CodePointSet_init code_points = Inr s \<Longrightarrow> reachable s"
| r_from_range: "from_range start end' = Inr s \<Longrightarrow> reachable s"
| r_from_single: "from_single code_point = Inr s \<Longrightarrow> reachable s"
| r_from_string: "from_string text = Inr s \<Longrightarrow> reachable s"
| r_add: "reachable s \<Longrightarrow> add code_point s = Inr s' \<Longrightarrow> reachable s'"
| r_add_range: "reachable s \<Longrightarrow> add_range start end' s = Inr s' \<Longrightarrow> reachable s'"
| r_remove: "reachable s \<Longrightarrow> remove_point code_point s = Inr s' \<Longrightarrow> reachable s'"
| r_remove_range: "reachable s \<Longrightarrow> remove_range start end' s = Inr s' \<Longrightarrow> reachable s'"
| r_or: "reachable s \<Longrightarrow> reachable t \<Longrightarrow> reachable (cps_or s t)"
| r_and: "reachable s \<Longrightarrow> reachable t \<Longrightarrow> reachable (cps_and s t)"
| r_sub: "reachable s \<Longrightarrow> reachable t \<Longrightarrow> reachable (cps_sub s t)"
| r_invert: "reachable s \<Longrightarrow> cps_invert s = Inr s' \<Longrightarrow> reachable s'"
| r_copy: "reachable s \<Longrightarrow> reachable (copy s)"

section \<open>Host functions used by the generators\<close>

text \<open>
  \<open>chr(i)\<close> raises ValueError outside \<open>range(0x110000)\<close>; its result is a one-character
  string.
\<close>

definition py_chr :: "int \<Rightarrow> py_error + pystr" where
  "py_chr i = (if 0 \<le> i \<and> i \<le> 0x10FFFF then Inr [i] else Inl ValueError)"

text \<open>
  \<open>re.escape\<close> (Python 3.7 and later) puts a backslash before each of the characters
  \<open>()[]{}?*+-|^$\.&~#\<close>, the space and the whitespace characters \<open>\t \n \r \v \f\<close>, and
  leaves every other character as it is.
\<close>

definition re_special_chars :: "int list" where
  "re_special_chars = py (''()[]{}?*+-|^$'' @ [CHR 0x5C] @ ''.&~# '') @ [9, 10, 13, 11, 12]"

definition re_escape :: "pystr \<Rightarrow> pystr" where
  "re_escape s =
     concat (map (\<lambda>c. if c \<in> set re_special_chars then [ch (CHR 0x5C), c] else [c]) s)"

text \<open>
  \<open>c.isdigit()\<close> on one character, for the characters below U+0080, where it holds of
  \<open>0\<close> to \<open>9\<close> only. (The host also accepts digits of other scripts; they are outside
  this model, and no theorem below is about them.)
\<close>

definition isdigit :: "int \<Rightarrow> bool" where
  "isdigit c = (ch CHR ''0'' \<le> c \<and> c \<le> ch CHR ''9'')"

text \<open>\<open>sep.join(xs)\<close>.\<close>

fun join :: "pystr \<Rightarrow> pystr list \<Rightarrow> pystr" where
  "join sep [] = []"
| "join sep [x] = x"
| "join sep (x # y # ys) = x @ sep @ join sep (y # ys)"

text \<open>
  \<open>f"{v:0Nx}"\<close>: lower-case hexadecimal digits, padded with zeros to width \<open>N\<close>; the
  sign of a negative number comes before the zeros and counts in the width.
\<close>

definition hex_digit :: "nat \<Rightarrow> int" where
  "hex_digit d = py ''0123456789abcdef'' ! d"

fun hex_digits :: "nat \<Rightarrow> pystr" where
  "hex_digits n = (if n < 16 then [hex_digit n] else hex_digits (n div 16) @ [hex_digit (n mod 16)])"

definition format_hex :: "nat \<Rightarrow> int \<Rightarrow> pystr" where
  "format_hex width v =
     (if v < 0
      then py ''-'' @ replicate (width - 1 - length (hex_digits (nat (- v)))) (ch CHR ''0'')
           @ hex_digits (nat (- v))
      else replicate (width - length (hex_digits (nat v))) (ch CHR ''0'') @ hex_digits (nat v))"

section \<open>RegexGenerator (unicode\_regex/regex\_generator.py)\<close>

subsection \<open>Objects and equality\<close>

text \<open>
  \<open>generate_pattern\<close> compares its argument with the sets of \<open>COMMON_RANGES\<close> by \<open>==\<close>.
  CodePointSet defines no \<open>__eq__\<close>, so Python uses \<open>object.__eq__\<close>: two CodePointSets
  are equal exactly when they are the same object. An object is therefore modelled with
  its identity (what \<open>id\<close> returns) beside its points.
\<close>

record cps_object =
  obj_id :: nat
  obj_points :: "int set"

definition cps_eq :: "cps_object \<Rightarrow> cps_object \<Rightarrow> bool" where
  "cps_eq self other = (obj_id self = obj_id other)"

text \<open>
  The argument of \<open>generate_pattern\<close> is a built-in set of ints or a CodePointSet.
  \<open>bool\<close>, \<open>frozenset\<close> and \<open>sorted\<close> of a CodePointSet go through \<open>__bool__\<close> and
  \<open>__iter__\<close>. A built-in set compared with a CodePointSet is unequal: \<open>set.__eq__\<close>
  does not know the other type, neither class defines another comparison, and the
  objects are not identical.
\<close>

datatype code_points = PySet "int set" | CPSet cps_object

fun truthy :: "code_points \<Rightarrow> bool" where
  "truthy (PySet s) = (s \<noteq> {})"
| "truthy (CPSet c) = cps_bool (obj_points c)"

fun frozenset :: "code_points \<Rightarrow> int set" where
  "frozenset (PySet s) = s"
| "frozenset (CPSet c) = set (cps_iter (obj_points c))"

fun sorted_points :: "code_points \<Rightarrow> int list" where
  "sorted_points (PySet s) = sorted_list_of_set s"
| "sorted_points (CPSet c) = sort (cps_iter (obj_points c))"

fun eq_common :: "code_points \<Rightarrow> cps_object \<Rightarrow> bool" where
  "eq_common (PySet s) common_set = False"
| "eq_common (CPSet c) common_set = cps_eq c common_set"

subsection \<open>Class attributes and helpers\<close>

definition SPECIAL_CHARS :: "pystr set" where
  "SPECIAL_CHARS = (\<lambda>c. [c]) ` set (py (''.^$*+?{}[]'' @ [CHR 0x5C] @ ''|()-''))"

text \<open>
  The three sets of \<open>COMMON_RANGES\<close> are built once, when the class body runs; the
  identities 0, 1 and 2 stand for these three objects. Every object a caller builds is
  another object and has another identity. The dictionary is kept as the list of its
  items in insertion order, the order in which \<open>generate_pattern\<close> iterates.
\<close>

definition COMMON_RANGES :: "(pystr \<times> cps_object) list" where
  "COMMON_RANGES =
     [(py [CHR 0x5C, CHR ''d''], \<lparr>obj_id = 0, obj_points = {0x30..0x39}\<rparr>),
      (py [CHR 0x5C, CHR ''w''],
         \<lparr>obj_id = 1, obj_points = {0x30..0x39} \<union> {0x41..0x5A} \<union> {0x61..0x7A} \<union> {0x5F}\<rparr>),
      (py [CHR 0x5C, CHR ''s''],
         \<lparr>obj_id = 2, obj_points = {0x20, 0x09, 0x0A, 0x0B, 0x0C, 0x0D}\<rparr>)]"

definition escape_char :: "pystr \<Rightarrow> pystr" where
  "escape_char char = (if char \<in> SPECIAL_CHARS then py [CHR 0x5C] @ char else char)"

definition format_code_point :: "int \<Rightarrow> bool \<Rightarrow> py_error + pystr" where
  "format_code_point cp use_hex =
     (if cp < 128 \<and> \<not> use_hex
      then (case py_chr cp of Inl e \<Rightarrow> Inl e | Inr char \<Rightarrow> Inr (escape_char char))
      else if cp \<le> 0xFFFF then Inr (py [CHR 0x5C, CHR ''u''] @ format_hex 4 cp)
      else Inr (py [CHR 0x5C, CHR ''U''] @ format_hex 8 cp))"

definition needs_escape :: "pystr \<Rightarrow> bool" where
  "needs_escape char = contains (py (''.^$*+?{}[]'' @ [CHR 0x5C] @ ''|()'')) char"

subsection \<open>\<open>RegexGenerator._get_ranges\<close>\<close>

fun gen_ranges_loop :: "int \<Rightarrow> int \<Rightarrow> int list \<Rightarrow> (int \<times> int) list \<Rightarrow> (int \<times> int) list" where
  "gen_ranges_loop start prev [] ranges = ranges @ [(start, prev)]"
| "gen_ranges_loop start prev (point # rest) ranges =
     (if point \<noteq> prev + 1
      then gen_ranges_loop point point rest (ranges @ [(start, prev)])
      else gen_ranges_loop start point rest ranges)"

definition gen_get_ranges :: "code_points \<Rightarrow> (int \<times> int) list" where
  "gen_get_ranges code_points =
     (if \<not> truthy code_points then []
      else (case sorted_points code_points of
              [] \<Rightarrow> []
            | first # rest \<Rightarrow> gen_ranges_loop first first rest []))"

subsection \<open>\<open>RegexGenerator._ranges_to_pattern\<close>\<close>

text \<open>
  The source writes \<open>char = chr(p)\<close> followed by
  \<open>re.escape(char) if self._needs_escape(char) else char\<close> for a single point and for
  each bound of a range; \<open>escaped_chr\<close> is that expression. \<open>_format_code_point\<close> is not
  called here, nor anywhere else in the class.
\<close>

definition escaped_chr :: "int \<Rightarrow> py_error + pystr" where
  "escaped_chr p =
     (case py_chr p of
        Inl e \<Rightarrow> Inl e
      | Inr char \<Rightarrow> Inr (if needs_escape char then re_escape char else char))"

fun range_patterns :: "(int \<times> int) list \<Rightarrow> pystr \<Rightarrow> py_error + pystr list" where
  "range_patterns [] prioritize = Inr []"
| "range_patterns ((start, end') # rest) prioritize =
     (case (if start = end' then escaped_chr start
            else (case escaped_chr start of
                    Inl e \<Rightarrow> Inl e
                  | Inr start_char \<Rightarrow>
                      (case escaped_chr end' of
                         Inl e \<Rightarrow> Inl e
                       | Inr end_char \<Rightarrow>
                           Inr (if prioritize = py ''readability''
                                then start_char @ py '' - '' @ end_char
                                else start_char @ py ''-'' @ end_char)))) of
        Inl e \<Rightarrow> Inl e
      | Inr item \<Rightarrow>
          (case range_patterns rest prioritize of
             Inl e \<Rightarrow> Inl e
           | Inr patterns \<Rightarrow> Inr (item # patterns)))"

definition ranges_to_pattern :: "(int \<times> int) list \<Rightarrow> pystr \<Rightarrow> py_error + pystr" where
  "ranges_to_pattern ranges prioritize =
     (if ranges = [] then Inr (py ''[]'')
      else if length ranges = 1 \<and> fst (ranges ! 0) = snd (ranges ! 0)
      then escaped_chr (fst (ranges ! 0))
      else (case range_patterns ranges prioritize of
              Inl e \<Rightarrow> Inl e
            | Inr patterns \<Rightarrow>
                if length patterns = 1 then Inr (py ''['' @ patterns ! 0 @ py '']'')
                else if prioritize = py ''readability''
                then Inr (py ''['' @ join (py '' | '') patterns @ py '']'')
                else Inr (py ''['' @ join [] patterns @ py '']'')))"

subsection \<open>\<open>RegexGenerator.generate_pattern\<close> and \<open>generate_range_pattern\<close>\<close>

text \<open>
  The generator's state is its pattern cache, a dictionary from
  \<open>(frozenset(code_points), prioritize)\<close> to the pattern; \<open>generate_pattern\<close> returns
  the pattern with the cache it leaves behind.
\<close>

type_synonym pattern_cache = "int set \<times> pystr \<rightharpoonup> pystr"

fun match_common :: "code_points \<Rightarrow> (pystr \<times> cps_object) list \<Rightarrow> pystr option" where
  "match_common code_points [] = None"
| "match_common code_points ((pattern, common_set) # rest) =
     (if eq_common code_points common_set then Some pattern
      else match_common code_points rest)"

definition generate_pattern ::
  "pattern_cache \<Rightarrow> code_points \<Rightarrow> pystr \<Rightarrow> py_error + pystr \<times> pattern_cache" where
  "generate_pattern cache code_points prioritize =
     (if \<not> truthy code_points then Inr (py ''[]'', cache)
      else (case cache (frozenset code_points, prioritize) of
              Some pattern \<Rightarrow> Inr (pattern, cache)
            | None \<Rightarrow>
                (case match_common code_points COMMON_RANGES of
                   Some pattern \<Rightarrow>
                     Inr (pattern, cache((frozenset code_points, prioritize) \<mapsto> pattern))
                 | None \<Rightarrow>
                     (case ranges_to_pattern (gen_get_ranges code_points) prioritize of
                        Inl e \<Rightarrow> Inl e
                      | Inr pattern \<Rightarrow>
                          Inr (pattern,
                               cache((frozenset code_points, prioritize) \<mapsto> pattern))))))"

definition generate_range_pattern :: "int \<Rightarrow> int \<Rightarrow> py_error + pystr" where
  "generate_range_pattern start end' =
     (if start > end' then Inl ValueError
      else ranges_to_pattern [(start, end')] (py ''size''))"

section \<open>RegexGenerator for literal strings (regen/regex\_generator.py)\<close>

definition create_alternation :: "pystr list \<Rightarrow> pystr" where
  "create_alternation patterns =
     (if patterns = [] then []
      else if length patterns = 1 then re_escape (patterns ! 0)
      else py ''(?:'' @ join (py ''|'') (map re_escape patterns) @ py '')'')"

text \<open>
  The inner \<open>while\<close> loop of \<open>create_optimized_pattern\<close>: the candidate prefix loses its
  last character until \<open>s\<close> starts with it; the \<open>break\<close> leaves the loop with the empty
  prefix. Every string starts with the empty string, so the loop body only runs on a
  non-empty prefix, which gets shorter.
\<close>

function shrink :: "pystr \<Rightarrow> pystr \<Rightarrow> pystr" where
  "shrink s prefix =
     (if \<not> startswith s prefix
      then (if slice_to prefix (- 1) = [] then slice_to prefix (- 1)
            else shrink s (slice_to prefix (- 1)))
      else prefix)"
  by pat_completeness auto
termination
proof (relation "measure (\<lambda>(s, prefix). length prefix)")
  show "wf (measure (\<lambda>(s, prefix). length prefix))" by simp
next
  fix s prefix :: pystr
  assume "\<not> startswith s prefix"
  then have "prefix \<noteq> []" by (auto simp add: startswith_def)
  then show "((s, slice_to prefix (- 1)), (s, prefix)) \<in> measure (\<lambda>(s, prefix). length prefix)"
    by (cases prefix) (simp_all add: slice_to_def clip_def)
qed

text \<open>
  The positions of the first suffix at which every suffix holds a digit, each with the
  sorted distinct characters found there. All suffixes have the length of the first, so
  \<open>s[i]\<close> is in range.
\<close>

definition numeric_positions :: "pystr list \<Rightarrow> (nat \<times> pystr) list" where
  "numeric_positions suffixes =
     map (\<lambda>i. (i, sorted_list_of_set (set (map (\<lambda>s. s ! i) suffixes))))
       (filter (\<lambda>i. list_all isdigit (map (\<lambda>s. s ! i) suffixes))
          [0..<length (suffixes ! 0)])"

text \<open>The loop that writes the result; \<open>pos\<close> and \<open>result\<close> are its variables.\<close>

fun build_loop :: "pystr \<Rightarrow> (nat \<times> pystr) list \<Rightarrow> nat \<Rightarrow> pystr \<Rightarrow> nat \<times> pystr" where
  "build_loop suffix0 [] pos result = (pos, result)"
| "build_loop suffix0 ((i, chars) # rest) pos result =
     build_loop suffix0 rest (i + 1)
       ((if i > pos then result @ re_escape (slice suffix0 (int pos) (int i)) else result)
        @ py ''['' @ chars @ py '']'')"

definition create_optimized_pattern :: "pystr list \<Rightarrow> pystr" where
  "create_optimized_pattern strings =
     (if strings = [] then []
      else if length strings = 1 then re_escape (strings ! 0)
      else
        (let prefix = fold shrink (slice_from strings 1) (strings ! 0) in
         if prefix \<noteq> []
         then
           (let suffixes = map (\<lambda>s. slice_from s (int (length prefix))) strings in
            if list_all (\<lambda>s. length s = length (suffixes ! 0)) suffixes
            then
              (let numeric = numeric_positions suffixes in
               if numeric \<noteq> []
               then
                 (case build_loop (suffixes ! 0) numeric 0 (re_escape prefix) of
                    (pos, result) \<Rightarrow>
                      if pos < length (suffixes ! 0)
                      then result @ re_escape (slice_from (suffixes ! 0) (int pos))
                      else result)
               else create_alternation strings)
            else create_alternation strings)
         else create_alternation strings))"

section \<open>\<open>Optimizer.benchmark_pattern\<close>\<close>






section \<open>Properties of the optimizer\<close>

lemma py_size_neq_readability: "py ''size'' \<noteq> py ''readability''"
  by (simp add: py_def)

lemma readability_loop_length:
  "length result + length rest \<le> length (readability_loop pattern rest in_class result)"
proof (induction rest arbitrary: in_class result)
  case Nil
  show ?case by simp
next
  case (Cons ic rest)
  obtain i c where ic: "ic = (i, c)" by (cases ic)
  let ?sp = "(if 0 < i \<and> pattern ! (i - 1) \<noteq> ch CHR '' ''
               then result @ [ch CHR '' ''] else result)
              @ [c]
              @ (if int i < int (length pattern) - 1 \<and> pattern ! (i + 1) \<noteq> ch CHR '' ''
                 then [ch CHR '' ''] else [])"
  have sp: "length result + 1 \<le> length ?sp" by simp
  consider (lb) "c = ch CHR ''[''"
    | (rb) "c \<noteq> ch CHR ''[''" "c = ch CHR '']''"
    | (bar) "c \<noteq> ch CHR ''[''" "c \<noteq> ch CHR '']''" "c = ch CHR ''|'' \<and> \<not> in_class"
    | (other) "c \<noteq> ch CHR ''[''" "c \<noteq> ch CHR '']''" "\<not> (c = ch CHR ''|'' \<and> \<not> in_class)"
    by blast
  then show ?case
  proof cases
    case lb
    then show ?thesis
      using Cons.IH [of "result @ [c]" True] by (simp add: ic)
  next
    case rb
    then show ?thesis
      using Cons.IH [of "result @ [c]" False] by (simp add: ic)
  next
    case bar
    have e: "readability_loop pattern (ic # rest) in_class result
            = readability_loop pattern rest in_class ?sp"
      using bar by (simp add: ic)
    have a: "length result + length (ic # rest) \<le> length ?sp + length rest"
      using sp by (simp only: length_Cons)
    have b: "length ?sp + length rest
            \<le> length (readability_loop pattern rest in_class ?sp)"
      by (rule Cons.IH)
    show ?thesis
      unfolding e by (rule order_trans [OF a b])
  next
    case other
    have e: "readability_loop pattern (ic # rest) in_class result
            = readability_loop pattern rest in_class (result @ [c])"
      unfolding ic readability_loop.simps using other by (simp only: if_False)
    show ?thesis
      unfolding e using Cons.IH [of "result @ [c]" in_class] by simp
  qed
qed

lemma optimize_readability_length: "length s \<le> length (optimize_readability s)"
  using readability_loop_length [of "[]" "enumerate 0 s" s False]
  by (simp add: optimize_readability_def)

text \<open>
  C8. For every pattern string \<open>p\<close>, both \<open>optimize_pattern(p, 'size')\<close> and
  \<open>optimize_pattern(p, 'readability')\<close> return, and the length of the first result is
  less than or equal to the length of the second: the readability pass only inserts
  spaces into the minimised pattern.
\<close>

theorem optimize_pattern_size_le_readability:
  "\<exists>a b. optimize_pattern p (py ''size'') = Inr a
       \<and> optimize_pattern p (py ''readability'') = Inr b
       \<and> length a \<le> length b"
  using py_size_neq_readability optimize_readability_length [of "minimize_pattern p"]
  by (simp add: optimize_pattern_def)





section \<open>Properties of CodePointSet\<close>

lemma fold_discard: "fold (\<lambda>point s. s - {point}) xs S = S - set xs"
  by (induction xs arbitrary: S) auto

lemma add_range_result:
  "add_range start end' S = Inr S' \<Longrightarrow>
     S' = S \<union> {start..end'} \<and> 0 \<le> start \<and> start \<le> end' \<and> end' \<le> 0x10FFFF"
  by (auto simp add: add_range_def union_set_fold [symmetric] split: if_splits)

lemma add_range_valid:
  "0 \<le> start \<Longrightarrow> start \<le> end' \<Longrightarrow> end' \<le> 0x10FFFF \<Longrightarrow>
     add_range start end' S = Inr (S \<union> {start..end'})"
  by (auto simp add: add_range_def union_set_fold [symmetric])

lemma remove_range_result: "remove_range start end' S = Inr (S - {start..end'})"
  by (simp add: remove_range_def fold_discard)

lemma add_all_result:
  "add_all ps S = Inr S' \<Longrightarrow> S' = S \<union> set ps \<and> set ps \<subseteq> {0..0x10FFFF}"
proof (induction ps arbitrary: S)
  case Nil
  then show ?case by simp
next
  case (Cons p ps)
  from Cons.prems obtain S1 where 1: "add p S = Inr S1" and 2: "add_all ps S1 = Inr S'"
    by (auto split: sum.splits)
  from 1 have "S1 = insert p S" and "0 \<le> p" and "p \<le> 0x10FFFF"
    by (auto simp add: add_def split: if_splits)
  with Cons.IH [OF 2] show ?case by auto
qed

lemma add_preserves:
  "valid_points S \<Longrightarrow> add p S = Inr S' \<Longrightarrow> valid_points S'"
  by (auto simp add: add_def valid_points_def split: if_splits)

lemma add_range_preserves:
  "valid_points S \<Longrightarrow> add_range start end' S = Inr S' \<Longrightarrow> valid_points S'"
  by (drule add_range_result) (auto simp add: valid_points_def)

lemma add_all_preserves:
  "valid_points S \<Longrightarrow> add_all ps S = Inr S' \<Longrightarrow> valid_points S'"
  by (drule add_all_result) (auto simp add: valid_points_def)

lemma invert_loop_preserves:
  "valid_points result \<Longrightarrow> invert_loop ps current result = Inr (c, r) \<Longrightarrow> valid_points r"
proof (induction ps arbitrary: current result)
  case Nil
  then show ?case by simp
next
  case (Cons p ps)
  show ?case
  proof (cases "p > current")
    case True
    with Cons.prems(2) obtain r1 where 1: "add_range current (p - 1) result = Inr r1"
      and 2: "invert_loop ps (p + 1) r1 = Inr (c, r)"
      by (auto split: sum.splits)
    from add_range_preserves [OF Cons.prems(1) 1] have "valid_points r1" .
    from Cons.IH [OF this 2] show ?thesis .
  next
    case False
    with Cons.prems(2) have "invert_loop ps (p + 1) result = Inr (c, r)" by simp
    from Cons.IH [OF Cons.prems(1) this] show ?thesis .
  qed
qed

lemma cps_invert_valid: "cps_invert S = Inr S' \<Longrightarrow> valid_points S'"
proof -
  assume a: "cps_invert S = Inr S'"
  have e: "valid_points {}" by (simp add: valid_points_def)
  from a obtain c r where 1: "invert_loop (sorted_list_of_set S) 0 {} = Inr (c, r)"
    and 2: "(if c \<le> 0x10FFFF then add_range c 0x10FFFF r else Inr r) = Inr S'"
    by (auto simp add: cps_invert_def split: sum.splits prod.splits)
  from invert_loop_preserves [OF e 1] have r: "valid_points r" .
  show ?thesis
  proof (cases "c \<le> 0x10FFFF")
    case True
    with 2 have "add_range c 0x10FFFF r = Inr S'" by simp
    from add_range_preserves [OF r this] show ?thesis .
  next
    case False
    with 2 r show ?thesis by simp
  qed
qed

text \<open>
  C10. Every CodePointSet reachable through the public operations (the constructor,
  \<open>from_range\<close>, \<open>from_single\<close>, \<open>from_string\<close>, \<open>add\<close>, \<open>add_range\<close>, \<open>remove\<close>,
  \<open>remove_range\<close>, union, intersection, difference, complement, \<open>copy\<close>) contains only
  integers in \<open>[0, 0x10FFFF]\<close>: each operation that returns preserves the invariant.
\<close>

theorem reachable_valid_points: "reachable s \<Longrightarrow> valid_points s"
proof (induction rule: reachable.induct)
  case (r_init code_points s)
  have e: "valid_points {}" by (simp add: valid_points_def)
  from r_init show ?case
    by (auto simp add: CodePointSet_init_def e split: option.splits
             intro: add_all_preserves [OF e])
next
  case (r_from_range start end' s)
  have e: "valid_points {}" by (simp add: valid_points_def)
  from r_from_range show ?case
    by (auto simp add: from_range_def CodePointSet_init_def
             intro: add_range_preserves [OF e])
next
  case (r_from_single code_point s)
  have e: "valid_points {}" by (simp add: valid_points_def)
  from r_from_single show ?case
    by (auto simp add: from_single_def from_range_def CodePointSet_init_def
             intro: add_range_preserves [OF e])
next
  case (r_from_string str s)
  have e: "valid_points {}" by (simp add: valid_points_def)
  from r_from_string show ?case
    by (auto simp add: from_string_def CodePointSet_init_def
             intro: add_all_preserves [OF e])
next
  case (r_add s code_point s')
  then show ?case by (auto intro: add_preserves)
next
  case (r_add_range s start end' s')
  then show ?case by (auto intro: add_range_preserves)
next
  case (r_remove s code_point s')
  then show ?case by (auto simp add: remove_point_def valid_points_def)
next
  case (r_remove_range s start end' s')
  then show ?case by (auto simp add: remove_range_result valid_points_def)
next
  case (r_or s t)
  then show ?case by (auto simp add: cps_or_def valid_points_def)
next
  case (r_and s t)
  then show ?case by (auto simp add: cps_and_def valid_points_def)
next
  case (r_sub s t)
  then show ?case by (auto simp add: cps_sub_def valid_points_def)
next
  case (r_invert s s')
  then show ?case by (auto intro: cps_invert_valid)
next
  case (r_copy s)
  then show ?case by (simp add: copy_def)
qed

theorem reachable_valid_points_witness:
  "reachable (cps_or {65} {70, 71}) \<and> valid_points (cps_or {65} {70, 71})"
proof -
  have a: "reachable {65}"
    by (rule r_from_single [of 65])
       (simp add: from_single_def from_range_def CodePointSet_init_def add_range_def)
  have b: "reachable {70, 71}"
    by (rule r_from_range [of 70 71])
       (simp add: from_range_def CodePointSet_init_def add_range_def upto.simps insert_commute)
  have r: "reachable (cps_or {65} {70, 71})"
    by (rule r_or [OF a b])
  show ?thesis
    using r reachable_valid_points [OF r] by simp
qed

text \<open>
  C6 (as stated). \<open>remove\<close> and \<open>remove_range\<close> do not fail on integers outside
  \<open>[0, 0x10FFFF]\<close>: they validate nothing and return normally.
\<close>

theorem remove_out_of_range_returns:
  "remove_point 0x110000 {65} = Inr {65} \<and> remove_range (- 2) (- 1) {65} = Inr {65}"
  by (auto simp add: remove_point_def remove_range_result)

text \<open>
  C6 (amended). For every integer \<open>p\<close> outside \<open>[0, 0x10FFFF]\<close>, \<open>add(p)\<close> and
  \<open>add_range\<close> with \<open>p\<close> as either bound fail with ValueError, at the point of input
  acceptance (the set is not touched); \<open>remove(p)\<close> and \<open>remove_range\<close> with \<open>p\<close> as
  either bound return normally, having discarded the members that lie in the range.
\<close>

theorem out_of_range_point_operations:
  assumes "p < 0 \<or> 0x10FFFF < p"
  shows "add p S = Inl ValueError
       \<and> add_range p e S = Inl ValueError
       \<and> add_range s p S = Inl ValueError
       \<and> remove_point p S = Inr (S - {p})
       \<and> remove_range p e S = Inr (S - {p..e})
       \<and> remove_range s p S = Inr (S - {s..p})"
  using assms
  by (auto simp add: add_def add_range_def remove_point_def remove_range_result)

theorem out_of_range_point_operations_witness:
  "((- 1 :: int) < 0 \<or> 0x10FFFF < (- 1 :: int))
   \<and> add (- 1) {65} = Inl ValueError
   \<and> add_range (- 1) 70 {65} = Inl ValueError
   \<and> add_range (- 5) (- 1) {65} = Inl ValueError
   \<and> remove_point (- 1) {65} = Inr ({65} - {- 1})
   \<and> remove_range (- 1) 70 {65} = Inr ({65} - {- 1..70})
   \<and> remove_range (- 5) (- 1) {65} = Inr ({65} - {- 5..- 1})"
proof -
  have h: "(- 1 :: int) < 0 \<or> 0x10FFFF < (- 1 :: int)" by simp
  show ?thesis
    using h out_of_range_point_operations [OF h, of "{65}" 70 "- 5"] by simp
qed


lemma get_ranges_loop_props:
  assumes "start \<le> end'" and "sorted_wrt (<) ps" and "\<forall>p\<in>set ps. end' < p"
  shows "list_all (\<lambda>r. start \<le> fst r \<and> fst r \<le> snd r) (get_ranges_loop start end' ps)
       \<and> sorted_wrt (\<lambda>r1 r2. snd r1 + 1 < fst r2) (get_ranges_loop start end' ps)
       \<and> (\<Union>r\<in>set (get_ranges_loop start end' ps). {fst r..snd r}) = {start..end'} \<union> set ps"
  using assms
proof (induction ps arbitrary: start end')
  case Nil
  then show ?case by simp
next
  case (Cons p ps)
  have ps: "sorted_wrt (<) ps" and gt: "\<forall>q\<in>set ps. p < q" and ep: "end' < p"
    using Cons.prems by auto
  show ?case
  proof (cases "p = end' + 1")
    case True
    have sp: "start \<le> p" using Cons.prems(1) ep by simp
    have u: "{start..p} = {start..end'} \<union> {p}" using True Cons.prems(1) by auto
    from Cons.IH [OF sp ps gt] True u show ?thesis by simp
  next
    case False
    have pp: "p \<le> p" by simp
    note ih = Cons.IH [OF pp ps gt]
    have lo: "\<forall>r\<in>set (get_ranges_loop p p ps). end' + 1 < fst r"
      using ih ep False by (auto simp add: list_all_iff)
    have lo2: "list_all (\<lambda>r. start \<le> fst r \<and> fst r \<le> snd r) (get_ranges_loop p p ps)"
      using ih ep Cons.prems(1) by (auto simp add: list_all_iff)
    show ?thesis
      using False ih lo lo2 Cons.prems(1) by auto
  qed
qed

lemma add_ranges_result:
  "list_all (\<lambda>r. 0 \<le> fst r \<and> fst r \<le> snd r \<and> snd r \<le> 0x10FFFF) rs \<Longrightarrow>
     add_ranges rs S = Inr (S \<union> (\<Union>r\<in>set rs. {fst r..snd r}))"
proof (induction rs arbitrary: S)
  case Nil
  then show ?case by simp
next
  case (Cons r rs)
  obtain a b where r: "r = (a, b)" by (cases r)
  from Cons.prems r have v: "0 \<le> a" "a \<le> b" "b \<le> 0x10FFFF" and rest:
    "list_all (\<lambda>r. 0 \<le> fst r \<and> fst r \<le> snd r \<and> snd r \<le> 0x10FFFF) rs" by auto
  show ?case
    unfolding r using add_range_valid [OF v, of S] Cons.IH [OF rest, of "S \<union> {a..b}"]
    by (simp add: Un_assoc)
qed

lemma get_ranges_finite:
  assumes "finite S"
  shows "list_all (\<lambda>r. fst r \<le> snd r) (get_ranges S)
       \<and> sorted_wrt (\<lambda>r1 r2. snd r1 + 1 < fst r2) (get_ranges S)
       \<and> (\<Union>r\<in>set (get_ranges S). {fst r..snd r}) = S"
proof (cases "S = {}")
  case True
  then show ?thesis by (simp add: get_ranges_def)
next
  case False
  then obtain x xs where l: "sorted_list_of_set S = x # xs"
    using assms by (cases "sorted_list_of_set S") auto
  have st: "sorted_wrt (<) (x # xs)"
    using strict_sorted_list_of_set [of S] l by simp
  have setl: "set (x # xs) = S"
    using set_sorted_list_of_set [OF assms] l by simp
  have g: "get_ranges S = get_ranges_loop x x xs"
    using False l by (simp add: get_ranges_def)
  have xx: "x \<le> x" by simp
  from st have a: "sorted_wrt (<) xs" and b: "\<forall>p\<in>set xs. x < p" by auto
  note pr = get_ranges_loop_props [OF xx a b]
  have "(\<Union>r\<in>set (get_ranges_loop x x xs). {fst r..snd r}) = S"
    using pr setl by auto
  moreover have "list_all (\<lambda>r. fst r \<le> snd r) (get_ranges_loop x x xs)"
    using pr by (auto simp add: list_all_iff)
  ultimately show ?thesis using pr g by simp
qed

text \<open>
  C7. For every CodePointSet (a set satisfying the class invariant), \<open>get_ranges\<close>
  yields well-formed ranges \<open>start \<le> end\<close> such that every earlier range ends more than
  one below the start of every later range (so the ranges are pairwise disjoint,
  ascending, and no two are adjacent or overlapping), whose union is exactly the set's
  members; adding the yielded ranges to a fresh set with \<open>add_range\<close> succeeds and
  rebuilds the original set.
\<close>

theorem get_ranges_decomposition:
  assumes "valid_points S"
  shows "list_all (\<lambda>r. fst r \<le> snd r) (get_ranges S)
       \<and> sorted_wrt (\<lambda>r1 r2. snd r1 + 1 < fst r2) (get_ranges S)
       \<and> (\<Union>r\<in>set (get_ranges S). {fst r..snd r}) = S
       \<and> add_ranges (get_ranges S) {} = Inr S"
proof -
  have fin: "finite S"
    using assms by (auto simp add: valid_points_def intro: finite_subset)
  note d = get_ranges_finite [OF fin]
  have v: "list_all (\<lambda>r. 0 \<le> fst r \<and> fst r \<le> snd r \<and> snd r \<le> 0x10FFFF) (get_ranges S)"
    unfolding list_all_iff
  proof
    fix r assume r: "r \<in> set (get_ranges S)"
    with d have le: "fst r \<le> snd r" by (auto simp add: list_all_iff)
    from d r have "{fst r..snd r} \<subseteq> S" by blast
    with le have "fst r \<in> S" "snd r \<in> S" by auto
    with assms le show "0 \<le> fst r \<and> fst r \<le> snd r \<and> snd r \<le> 0x10FFFF"
      by (auto simp add: valid_points_def)
  qed
  from add_ranges_result [OF v, of "{}"] d show ?thesis by simp
qed

theorem get_ranges_decomposition_witness:
  "valid_points {65, 66, 67, 70}
   \<and> get_ranges {65, 66, 67, 70} = [(65, 67), (70, 70)]
   \<and> list_all (\<lambda>r. fst r \<le> snd r) (get_ranges {65, 66, 67, 70})
   \<and> sorted_wrt (\<lambda>r1 r2. snd r1 + 1 < fst r2) (get_ranges {65, 66, 67, 70})
   \<and> (\<Union>r\<in>set (get_ranges {65, 66, 67, 70}). {fst r..snd r}) = {65, 66, 67, 70}
   \<and> add_ranges (get_ranges {65, 66, 67, 70}) {} = Inr {65, 66, 67, 70}"
proof -
  have h: "valid_points {65, 66, 67, 70}" by (simp add: valid_points_def)
  have g: "get_ranges {65, 66, 67, 70} = [(65, 67), (70, 70)]"
    by (simp add: get_ranges_def)
  show ?thesis
    using h g get_ranges_decomposition [OF h] by simp
qed

section \<open>Properties of the generators\<close>

lemma digits_built_by_add_range: "add_range 0x30 0x39 {} = Inr {0x30..0x39}"
  using add_range_valid [of "0x30" "0x39" "{}"] by simp

text \<open>
  C1 (evaluated on the code). The set of the ASCII digits, built by a caller as a new
  CodePointSet or passed as a built-in set, has the membership of the common range
  \<open>\d\<close>, but a generator with an empty cache returns \<open>[0-9]\<close> for it: the comparison
  with the common range is by identity and fails.
\<close>

theorem generate_pattern_digits_not_shorthand:
  "fst (COMMON_RANGES ! 0) = py [CHR 0x5C, CHR ''d'']
   \<and> obj_points (snd (COMMON_RANGES ! 0)) = {0x30..0x39}
   \<and> map_sum id fst
         (generate_pattern Map.empty (CPSet \<lparr>obj_id = 3, obj_points = {0x30..0x39}\<rparr>)
            (py ''size''))
       = Inr (py ''[0-9]'')
   \<and> map_sum id fst (generate_pattern Map.empty (PySet {0x30..0x39}) (py ''size''))
       = Inr (py ''[0-9]'')"
proof -
  have a: "fst (COMMON_RANGES ! 0) = py [CHR 0x5C, CHR ''d'']"
    by (simp add: COMMON_RANGES_def)
  have b: "obj_points (snd (COMMON_RANGES ! 0)) = {0x30..0x39}"
    by (simp add: COMMON_RANGES_def)
  have c: "map_sum id fst
         (generate_pattern Map.empty (CPSet \<lparr>obj_id = 3, obj_points = {0x30..0x39}\<rparr>)
            (py ''size''))
       = Inr (py ''[0-9]'')"
    by code_simp
  have d: "map_sum id fst (generate_pattern Map.empty (PySet {0x30..0x39}) (py ''size''))
       = Inr (py ''[0-9]'')"
    by code_simp
  from a b c d show ?thesis by (simp only: simp_thms)
qed

text \<open>
  C2 (evaluated on the code). Two CodePointSet objects with the same members, built
  separately, are not equal under \<open>==\<close>.
\<close>

theorem cps_eq_distinct_objects_same_points:
  "obj_points \<lparr>obj_id = 3, obj_points = {65}\<rparr> = obj_points \<lparr>obj_id = 4, obj_points = {65}\<rparr>
   \<and> \<not> cps_eq \<lparr>obj_id = 3, obj_points = {65}\<rparr> \<lparr>obj_id = 4, obj_points = {65}\<rparr>"
  by (simp add: cps_eq_def)

lemma hex_digits_10400: "hex_digits 66560 = py ''10400''"
  by (simp add: hex_digit_def py_def ch_def)

lemma format_code_point_10400:
  "format_code_point 0x10400 False = Inr (py (CHR 0x5C # ''U00010400''))"
  by (simp add: format_code_point_def format_hex_def hex_digit_def py_def ch_def
                numeral_3_eq_3)

text \<open>
  C3 (evaluated on the code). For the code point U+10400, \<open>generate_pattern\<close> returns
  the character itself, and \<open>generate_range_pattern\<close> puts the characters U+10400 and
  U+10401 themselves between the brackets; the escape \<open>\U00010400\<close> is what the unused
  \<open>_format_code_point\<close> returns.
\<close>

theorem generate_pattern_supplementary_literal:
  "map_sum id fst (generate_pattern Map.empty (PySet {0x10400}) (py ''size'')) = Inr [0x10400]
   \<and> generate_range_pattern 0x10400 0x10401
       = Inr (py ''['' @ [0x10400] @ py ''-'' @ [0x10401] @ py '']'')
   \<and> format_code_point 0x10400 False = Inr (py (CHR 0x5C # ''U00010400''))
   \<and> [0x10400] \<noteq> py (CHR 0x5C # ''U00010400'')"
proof -
  have a: "map_sum id fst (generate_pattern Map.empty (PySet {0x10400}) (py ''size''))
             = Inr [0x10400]"
    by code_simp
  have b: "generate_range_pattern 0x10400 0x10401
             = Inr (py ''['' @ [0x10400] @ py ''-'' @ [0x10401] @ py '']'')"
    by code_simp
  have d: "[0x10400] \<noteq> py (CHR 0x5C # ''U00010400'')"
    by (simp add: py_def)
  from a b format_code_point_10400 d show ?thesis by (simp only: simp_thms)
qed

text \<open>
  C5 (evaluated on the code). The strings \<open>test1a\<close>, \<open>test2b\<close>, \<open>test3c\<close> share the
  prefix \<open>test\<close>, their suffixes have length 2, and the second suffix position varies
  among the letters \<open>a\<close>, \<open>b\<close>, \<open>c\<close>; \<open>create_optimized_pattern\<close> returns
  \<open>test[123]a\<close>, not the alternation \<open>(?:test1a|test2b|test3c)\<close>.
\<close>

theorem create_optimized_pattern_mixed_no_fallback:
  "create_optimized_pattern [py ''test1a'', py ''test2b'', py ''test3c''] = py ''test[123]a''
   \<and> create_alternation [py ''test1a'', py ''test2b'', py ''test3c'']
       = py ''(?:test1a|test2b|test3c)''
   \<and> py ''test[123]a'' \<noteq> py ''(?:test1a|test2b|test3c)''"
proof -
  have a: "create_optimized_pattern [py ''test1a'', py ''test2b'', py ''test3c'']
             = py ''test[123]a''"
    by code_simp
  have b: "create_alternation [py ''test1a'', py ''test2b'', py ''test3c'']
             = py ''(?:test1a|test2b|test3c)''"
    by code_simp
  have c: "py ''test[123]a'' \<noteq> py ''(?:test1a|test2b|test3c)''"
    by (simp add: py_def)
  from a b c show ?thesis by (simp only: simp_thms)
qed

section \<open>Properties of \<open>benchmark_pattern\<close>\<close>



end
